theory Spec2Isabelle
  imports Complex_Main
begin

section \<open>KVideo: the desktop speed menu (DesktopSpeedMenu.tsx)\<close>

text \<open>
  A shallow embedding of the React component \<^verbatim>\<open>DesktopSpeedMenu\<close>: the DOM values it
  reads, its hook state, its callbacks and effects, and what it renders into the portal.

  JavaScript numbers are modelled as real numbers: the layout metrics the component
  reads are finite, and the arithmetic it does on them (sums, differences, one product
  with 0.7, \<^verbatim>\<open>Math.min\<close>, comparisons) is taken exactly, without the rounding of
  IEEE doubles.
\<close>

subsection \<open>The DOM as the component reads it\<close>

type_synonym number = real

text \<open>\<^verbatim>\<open>DOMRect\<close>, the result of \<^verbatim>\<open>getBoundingClientRect()\<close> (viewport coordinates).\<close>

record domRect =
  top_rect :: number
  bottom_rect :: number
  left_rect :: number
  right_rect :: number

text \<open>
  An \<^verbatim>\<open>HTMLElement\<close>. \<open>elId\<close> is the identity of the node: the source compares elements
  by reference (\<^verbatim>\<open>el !== containerRef.current\<close>). \<open>offsetParent\<close> and \<open>parentElement\<close>
  are \<^verbatim>\<open>null\<close> at the end of their chains, which are finite as the DOM is a tree.
\<close>

datatype element = Element
  (elId: nat)
  (classList: "string list")
  (offsetTop: number)
  (offsetLeft: number)
  (offsetHeight: number)
  (offsetWidth: number)
  (getBoundingClientRect: domRect)
  (offsetParent: "element option")
  (parentElement: "element option")

text \<open>
  What the component can observe of the page at one moment: the refs, the window and the
  document. \<open>menuElement\<close> is the menu's \<^verbatim>\<open>div\<close> as laid out when it is mounted;
  \<open>documentDefined\<close> is \<^verbatim>\<open>typeof document !== 'undefined'\<close>.
\<close>

record dom =
  buttonRef :: "element option"
  containerRef :: "element option"
  menuElement :: element
  innerHeight :: number
  documentDefined :: bool
  fullscreenElement :: "element option"

text \<open>
  A value that may be \<^verbatim>\<open>undefined\<close> or \<^verbatim>\<open>null\<close>: the result of an optional chain
  \<^verbatim>\<open>x?.f()\<close> is \<^verbatim>\<open>undefined\<close> when \<^verbatim>\<open>x\<close> is \<^verbatim>\<open>null\<close>, and otherwise what \<^verbatim>\<open>f\<close> returns.
\<close>

datatype 'a jsValue = JsUndefined | JsNull | JsObject 'a

text \<open>
  \<^verbatim>\<open>Element.closest('.c')\<close>: the element itself or its nearest ancestor carrying the
  class \<^verbatim>\<open>c\<close>, \<^verbatim>\<open>null\<close> when there is none.
\<close>

fun closest :: "string \<Rightarrow> element \<Rightarrow> element option" where
  "closest c (Element i cls ot ol oh ow r op pe) =
     (if c \<in> set cls then Some (Element i cls ot ol oh ow r op pe)
      else case pe of None \<Rightarrow> None | Some p \<Rightarrow> closest c p)"

subsection \<open>Props and hook state\<close>

text \<open>The \<^verbatim>\<open>maxHeight\<close> style: \<^verbatim>\<open>'none'\<close> initially, then the template \<^verbatim>\<open>`${maxHeight}px`\<close>.\<close>

datatype cssLength = CssNone | Px number

record menuPosition =
  topPos :: number
  leftPos :: number
  maxHeight :: cssLength
  openUpward :: bool

text \<open>A node that a portal can render into: an element, or \<^verbatim>\<open>document.body\<close>.\<close>

datatype node = ElementNode element | DocumentBody

text \<open>
  The component instance: the props \<open>showSpeedMenu\<close> and \<open>isRotated\<close> as of the last
  render, the two \<^verbatim>\<open>useState\<close> cells, the resources its effects hold (the pending
  50 ms timer and the window's scroll listener), and what the last render committed:
  the node the menu's portal sits in (\<open>None\<close> when no menu is rendered).
\<close>

record component =
  showSpeedMenu :: bool
  isRotated :: bool
  menuPosition :: menuPosition
  isFullscreen :: bool
  settleTimer :: bool
  scrollListener :: bool
  portalParent :: "node option"

definition initialMenuPosition :: menuPosition where
  "initialMenuPosition = \<lparr>topPos = 0, leftPos = 0, maxHeight = CssNone, openUpward = False\<rparr>"

text \<open>
  Modelled from the spec: the prop \<^verbatim>\<open>onToggleSpeedMenu\<close> is a callback of the hosting
  player, which is not part of this source file. The spec has the open/closed flag
  "toggled by trigger click and by scroll-based dismissal": the callback maps the flag
  to its negation.
\<close>

definition onToggleSpeedMenu :: "bool \<Rightarrow> bool" where
  "onToggleSpeedMenu shown = (if shown then False else True)"

subsection \<open>Fullscreen tracking (lines 33-48)\<close>

definition nativeFullscreen :: "dom \<Rightarrow> bool" where
  "nativeFullscreen env = (case fullscreenElement env of None \<Rightarrow> False | Some e \<Rightarrow> True)"

text \<open>\<^verbatim>\<open>containerRef.current?.closest('.is-web-fullscreen')\<close>\<close>

definition closestWebFullscreen :: "dom \<Rightarrow> element jsValue" where
  "closestWebFullscreen env =
     (case containerRef env of
        None \<Rightarrow> JsUndefined
      | Some container \<Rightarrow>
          (case closest ''is-web-fullscreen'' container of
             None \<Rightarrow> JsNull
           | Some e \<Rightarrow> JsObject e))"

text \<open>\<^verbatim>\<open>v !== null\<close>: strict inequality, so \<^verbatim>\<open>undefined !== null\<close> is true.\<close>

definition strictNotNull :: "'a jsValue \<Rightarrow> bool" where
  "strictNotNull v = (case v of JsNull \<Rightarrow> False | JsUndefined \<Rightarrow> True | JsObject x \<Rightarrow> True)"

definition windowFullscreen :: "dom \<Rightarrow> bool" where
  "windowFullscreen env = strictNotNull (closestWebFullscreen env)"

definition updateFullscreen :: "dom \<Rightarrow> component \<Rightarrow> component" where
  "updateFullscreen env s =
     s\<lparr>isFullscreen := (if nativeFullscreen env then True else windowFullscreen env)\<rparr>"

subsection \<open>Placement (lines 51-128)\<close>

text \<open>
  \<^verbatim>\<open>menuRef.current\<close>: the menu's \<^verbatim>\<open>div\<close> carries \<^verbatim>\<open>ref={menuRef}\<close> and is rendered
  (line 226) only while \<open>showSpeedMenu\<close> holds and the document exists.
\<close>

definition menuRef :: "dom \<Rightarrow> component \<Rightarrow> element option" where
  "menuRef env s =
     (if showSpeedMenu s \<and> documentDefined env then Some (menuElement env) else None)"

text \<open>
  \<^verbatim>\<open>menuRef.current?.offsetHeight || estimatedMenuHeight\<close>: the estimate 250 stands in
  when the menu is not mounted, and also when its measured height is 0 (falsy).
\<close>

definition actualMenuHeight :: "element option \<Rightarrow> number" where
  "actualMenuHeight menu =
     (case menu of
        None \<Rightarrow> 250
      | Some m \<Rightarrow> if offsetHeight m = 0 then 250 else offsetHeight m)"

text \<open>
  The loop of lines 91-95, started at \<^verbatim>\<open>el = buttonRef.current\<close> with \<open>(top, left) = (0, 0)\<close>:
  \<^verbatim>\<open>while (el && el !== containerRef.current) { top += el.offsetTop; left += el.offsetLeft; el = el.offsetParent }\<close>
\<close>

function offsetWalk :: "element option \<Rightarrow> element \<Rightarrow> number \<times> number \<Rightarrow> number \<times> number" where
  "offsetWalk None container (top', left') = (top', left')"
| "offsetWalk (Some el) container (top', left') =
     (if elId el = elId container then (top', left')
      else offsetWalk (offsetParent el) container (top' + offsetTop el, left' + offsetLeft el))"
  by pat_completeness auto
termination
proof (relation "measure (\<lambda>(el, container, acc). size_option size el)")
  fix el :: element and container :: element and top' left' :: number
  show "((offsetParent el, container, top' + offsetTop el, left' + offsetLeft el),
         (Some el, container, top', left'))
        \<in> measure (\<lambda>(el, container, acc). size_option size el)"
    by (cases el) simp
qed simp

text \<open>The local constants \<open>spaceBelow\<close> and \<open>spaceAbove\<close> of the two branches.\<close>

definition spaceBelowNormal :: "number \<Rightarrow> domRect \<Rightarrow> number" where
  "spaceBelowNormal viewportHeight buttonRect = viewportHeight - bottom_rect buttonRect - 10"

definition spaceAboveNormal :: "domRect \<Rightarrow> number" where
  "spaceAboveNormal buttonRect = top_rect buttonRect - 10"

definition spaceBelowRotated :: "number \<Rightarrow> number \<Rightarrow> number \<Rightarrow> number" where
  "spaceBelowRotated containerHeight top' buttonHeight =
     containerHeight - (top' + buttonHeight) - 20"

definition spaceAboveRotated :: "number \<Rightarrow> number" where
  "spaceAboveRotated top' = top' - 20"

definition calculateMenuPosition :: "dom \<Rightarrow> component \<Rightarrow> component" where
  "calculateMenuPosition env s =
     (case (buttonRef env, containerRef env) of
        (Some button, Some container) \<Rightarrow>
          if isRotated s then
            (let (top', left') = offsetWalk (Some button) container (0, 0);
                 buttonHeight = offsetHeight button;
                 buttonWidth = offsetWidth button;
                 containerHeight = offsetHeight container;
                 spaceBelow = spaceBelowRotated containerHeight top' buttonHeight;
                 spaceAbove = spaceAboveRotated top';
                 actualHeight = actualMenuHeight (menuRef env s);
                 up = (spaceBelow < min actualHeight 200 \<and> spaceAbove > spaceBelow);
                 maxH = (if up then min spaceAbove actualHeight
                         else min spaceBelow (containerHeight * 0.7))
             in if up then
                  s\<lparr>menuPosition := \<lparr>topPos = top' - 10, leftPos = left' + buttonWidth,
                                      maxHeight = Px maxH, openUpward = True\<rparr>\<rparr>
                else
                  s\<lparr>menuPosition := \<lparr>topPos = top' + buttonHeight + 10,
                                      leftPos = left' + buttonWidth,
                                      maxHeight = Px maxH, openUpward = False\<rparr>\<rparr>)
          else
            (let buttonRect = getBoundingClientRect button;
                 viewportHeight = innerHeight env;
                 spaceBelow = spaceBelowNormal viewportHeight buttonRect;
                 spaceAbove = spaceAboveNormal buttonRect;
                 actualHeight = actualMenuHeight (menuRef env s);
                 up = (spaceBelow < min actualHeight 200 \<and> spaceAbove > spaceBelow);
                 maxH = (if up then min spaceAbove actualHeight
                         else min spaceBelow (viewportHeight * 0.7))
             in s\<lparr>menuPosition :=
                    \<lparr>topPos = (if up then top_rect buttonRect - 10
                                else bottom_rect buttonRect + 10),
                     leftPos = right_rect buttonRect,
                     maxHeight = Px maxH,
                     openUpward = up\<rparr>\<rparr>)
      | _ \<Rightarrow> s)"

subsection \<open>Rendering, effects and handlers (lines 133-157, 226)\<close>

text \<open>
  The portal of line 226: nothing is rendered unless \<open>showSpeedMenu\<close> holds and the
  document exists; the target is
  \<^verbatim>\<open>(isRotated && containerRef.current) ? containerRef.current : document.body\<close>.
\<close>

definition portalTarget :: "dom \<Rightarrow> component \<Rightarrow> node option" where
  "portalTarget env s =
     (if showSpeedMenu s \<and> documentDefined env then
        Some (if isRotated s
              then (case containerRef env of
                      Some container \<Rightarrow> ElementNode container
                    | None \<Rightarrow> DocumentBody)
              else DocumentBody)
      else None)"

text \<open>
  A render evaluates line 226 in the page as it is then, and the menu stays in the node
  chosen until the next render. React renders the component when its parent renders
  it, and when one of its own state setters is called with a value that is not the
  current one (\<^verbatim>\<open>Object.is\<close>); a setter called with the current value does not render.
\<close>

definition render :: "dom \<Rightarrow> component \<Rightarrow> component" where
  "render env s = s\<lparr>portalParent := portalTarget env s\<rparr>"

text \<open>
  The listener of \<^verbatim>\<open>fullscreenchange\<close> and of the 500 ms interval (lines 40-43):
  \<^verbatim>\<open>updateFullscreen\<close>, and the render that follows when \<^verbatim>\<open>setIsFullscreen\<close> was given a
  new value.
\<close>

definition onFullscreenSignal :: "dom \<Rightarrow> component \<Rightarrow> component" where
  "onFullscreenSignal env s =
     (let s1 = updateFullscreen env s
      in if isFullscreen s1 = isFullscreen s then s1 else render env s1)"

text \<open>
  Whether a call of \<^verbatim>\<open>calculateMenuPosition\<close> passes the guard of line 52 and so calls
  \<^verbatim>\<open>setMenuPosition\<close>; the object it stores is a new one, so a render always follows.
\<close>

definition setsMenuPosition :: "dom \<Rightarrow> bool" where
  "setsMenuPosition env =
     (case (buttonRef env, containerRef env) of
        (Some button, Some container) \<Rightarrow> True
      | _ \<Rightarrow> False)"

text \<open>
  The callback of the 50 ms timer (line 147): \<^verbatim>\<open>calculateMenuPosition\<close>, and the render
  that follows when it stored a placement.
\<close>

definition onSettleTimeout :: "dom \<Rightarrow> component \<Rightarrow> component" where
  "onSettleTimeout env s =
     (let s1 = calculateMenuPosition env (s\<lparr>settleTimer := False\<rparr>)
      in if setsMenuPosition env then render env s1 else s1)"

text \<open>
  The scroll effect (lines 133-142): its cleanup removes the listener, and it adds the
  listener again only while \<open>showSpeedMenu\<close> holds.
\<close>

definition scrollEffect :: "component \<Rightarrow> component" where
  "scrollEffect s = s\<lparr>scrollListener := showSpeedMenu s\<rparr>"

text \<open>
  The placement effect (lines 144-150): the cleanup of its previous run clears the timer;
  while \<open>showSpeedMenu\<close> holds it computes the placement and starts the 50 ms timer.
  It runs right after a render, in the same page: the render that its
  \<^verbatim>\<open>setMenuPosition\<close> causes has the same props and the same page, chooses the same
  portal target and runs no effect, and is not written out.
\<close>

definition positionEffect :: "dom \<Rightarrow> component \<Rightarrow> component" where
  "positionEffect env s =
     (if showSpeedMenu s then (calculateMenuPosition env s)\<lparr>settleTimer := True\<rparr>
      else s\<lparr>settleTimer := False\<rparr>)"

text \<open>
  A render with the props \<open>shown\<close> and \<open>rot\<close>, followed by the effects whose dependencies
  changed: the scroll effect depends on \<open>showSpeedMenu\<close>, the placement effect on
  \<open>showSpeedMenu\<close> and \<open>isRotated\<close> (the callbacks and the ref object keep their identity).
\<close>

definition rerender :: "dom \<Rightarrow> bool \<Rightarrow> bool \<Rightarrow> component \<Rightarrow> component" where
  "rerender env shown rot s =
     (let s1 = render env (s\<lparr>showSpeedMenu := shown, isRotated := rot\<rparr>);
          s2 = (if shown = showSpeedMenu s then s1 else scrollEffect s1)
      in if shown = showSpeedMenu s \<and> rot = isRotated s then s2 else positionEffect env s2)"

text \<open>
  The first render and the effects of the mount, in the order of their declaration: the
  fullscreen effect calls \<^verbatim>\<open>updateFullscreen\<close> once (line 43).
\<close>

definition mount :: "dom \<Rightarrow> bool \<Rightarrow> bool \<Rightarrow> component" where
  "mount env shown rot =
     positionEffect env (scrollEffect (onFullscreenSignal env (render env
       \<lparr>showSpeedMenu = shown, isRotated = rot, menuPosition = initialMenuPosition,
        isFullscreen = False, settleTimer = False, scrollListener = False,
        portalParent = None\<rparr>)))"

text \<open>
  \<^verbatim>\<open>handleToggle\<close> (lines 152-157): the placement is computed when the menu is closed,
  then the parent's callback flips the flag and the component renders again.
\<close>

definition handleToggle :: "dom \<Rightarrow> component \<Rightarrow> component" where
  "handleToggle env s =
     (let s1 = (if showSpeedMenu s then s else calculateMenuPosition env s)
      in rerender env (onToggleSpeedMenu (showSpeedMenu s1)) (isRotated s1) s1)"

text \<open>\<^verbatim>\<open>handleScroll\<close> (lines 135-139).\<close>

definition handleScroll :: "dom \<Rightarrow> component \<Rightarrow> component" where
  "handleScroll env s =
     (if showSpeedMenu s
      then rerender env (onToggleSpeedMenu (showSpeedMenu s)) (isRotated s) s
      else s)"

text \<open>
  Where a scroll event is dispatched. A scroll of the viewport is dispatched at the
  document and bubbles to the window; a scroll of an element's own scroll box is
  dispatched at that element and does not bubble. Line 140 adds the listener to
  \<^verbatim>\<open>window\<close> without \<^verbatim>\<open>capture\<close>, so it hears only the events that reach the window
  by bubbling.
\<close>

datatype scrollTarget = ViewportScroll | ElementScroll element

fun reachesWindow :: "scrollTarget \<Rightarrow> bool" where
  "reachesWindow ViewportScroll = True"
| "reachesWindow (ElementScroll el) = False"

text \<open>
  What can happen to a mounted component: a click on the trigger, a scroll event (with
  its target and deltas), the 50 ms timer firing, a \<^verbatim>\<open>fullscreenchange\<close> event, a tick
  of the 500 ms poll, and a render by the parent with new props.
\<close>

datatype event =
  Click
| Scroll scrollTarget number number
| SettleTimeout
| FullscreenChange
| PollTick
| ParentRender bool bool

fun step :: "dom \<Rightarrow> event \<Rightarrow> component \<Rightarrow> component" where
  "step env Click s = handleToggle env s"
| "step env (Scroll target dx dy) s =
     (if scrollListener s \<and> reachesWindow target then handleScroll env s else s)"
| "step env SettleTimeout s = (if settleTimer s then onSettleTimeout env s else s)"
| "step env FullscreenChange s = onFullscreenSignal env s"
| "step env PollTick s = onFullscreenSignal env s"
| "step env (ParentRender shown rot) s = rerender env shown rot s"

text \<open>An execution: each event happens in the page as it is at that moment.\<close>

fun run :: "(dom \<times> event) list \<Rightarrow> component \<Rightarrow> component" where
  "run [] s = s"
| "run ((env, ev) # rest) s = run rest (step env ev s)"

inductive reachable :: "component \<Rightarrow> bool" where
  reachable_mount: "reachable (mount env shown rot)"
| reachable_step: "reachable s \<Longrightarrow> reachable (step env ev s)"

subsection \<open>Notions used to state the properties\<close>

text \<open>
  The direction rule in the words of the specification: "open upward if and only if
  (space below < min(actualHeight, 200)) AND (space above > space below)".
\<close>

definition specOpenUpward :: "number \<Rightarrow> number \<Rightarrow> number \<Rightarrow> bool" where
  "specOpenUpward spaceAbove spaceBelow actualHeight =
     (spaceBelow < min actualHeight 200 \<and> spaceAbove > spaceBelow)"

text \<open>The values of \<open>top\<close> and \<open>left\<close> when the loop of the rotated branch ends.\<close>

definition accumulatedTop :: "element \<Rightarrow> element \<Rightarrow> number" where
  "accumulatedTop button container = fst (offsetWalk (Some button) container (0, 0))"

definition accumulatedLeft :: "element \<Rightarrow> element \<Rightarrow> number" where
  "accumulatedLeft button container = snd (offsetWalk (Some button) container (0, 0))"

text \<open>
  The locals \<open>spaceBelow\<close> and \<open>spaceAbove\<close> of the branch that a call takes, and the
  height of which the downward ceiling is 70%: the container's in rotated mode, the
  viewport's otherwise.
\<close>

definition spaceBelow :: "dom \<Rightarrow> component \<Rightarrow> element \<Rightarrow> element \<Rightarrow> number" where
  "spaceBelow env s button container =
     (if isRotated s
      then spaceBelowRotated (offsetHeight container) (accumulatedTop button container)
             (offsetHeight button)
      else spaceBelowNormal (innerHeight env) (getBoundingClientRect button))"

definition spaceAbove :: "dom \<Rightarrow> component \<Rightarrow> element \<Rightarrow> element \<Rightarrow> number" where
  "spaceAbove env s button container =
     (if isRotated s then spaceAboveRotated (accumulatedTop button container)
      else spaceAboveNormal (getBoundingClientRect button))"

definition availableHeight :: "dom \<Rightarrow> component \<Rightarrow> element \<Rightarrow> number" where
  "availableHeight env s container =
     (if isRotated s then offsetHeight container else innerHeight env)"

text \<open>
  The offset-parent chain of an element, the element first, and its part before the
  anchor container: the specification's "from the trigger up to, but not including, the
  anchor container".
\<close>

function offsetChain :: "element option \<Rightarrow> element list" where
  "offsetChain None = []"
| "offsetChain (Some el) = el # offsetChain (offsetParent el)"
  by pat_completeness auto
termination
proof (relation "measure (size_option size)")
  fix el :: element
  show "(offsetParent el, Some el) \<in> measure (size_option size)"
    by (cases el) simp
qed simp

definition chainToContainer :: "element \<Rightarrow> element \<Rightarrow> element list" where
  "chainToContainer button container =
     takeWhile (\<lambda>el. elId el \<noteq> elId container) (offsetChain (Some button))"

text \<open>
  Two pages are the same except for the fullscreen signals when they agree once the
  marker class \<^verbatim>\<open>is-web-fullscreen\<close> is removed from every element and the native
  fullscreen element is forgotten. Two executions are the same except for these signals
  when they have the same events, each in such a pair of pages.
\<close>

primrec withoutMarker :: "element \<Rightarrow> element" where
  "withoutMarker (Element i cls ot ol oh ow r op pe) =
     Element i (removeAll ''is-web-fullscreen'' cls) ot ol oh ow r
       (map_option withoutMarker op) (map_option withoutMarker pe)"

definition withoutFullscreenSignals :: "dom \<Rightarrow> dom" where
  "withoutFullscreenSignals env =
     env\<lparr>buttonRef := map_option withoutMarker (buttonRef env),
         containerRef := map_option withoutMarker (containerRef env),
         menuElement := withoutMarker (menuElement env),
         fullscreenElement := None\<rparr>"

definition sameExceptFullscreen :: "dom \<Rightarrow> dom \<Rightarrow> bool" where
  "sameExceptFullscreen env1 env2 =
     (withoutFullscreenSignals env1 = withoutFullscreenSignals env2)"

fun sameExecution :: "(dom \<times> event) list \<Rightarrow> (dom \<times> event) list \<Rightarrow> bool" where
  "sameExecution [] [] = True"
| "sameExecution ((env1, ev1) # rest1) ((env2, ev2) # rest2) =
     (ev1 = ev2 \<and> sameExceptFullscreen env1 env2 \<and> sameExecution rest1 rest2)"
| "sameExecution tr1 tr2 = False"

text \<open>
  What the component shows: the stored placement, whether the menu is open, and the node
  the menu's portal sits in (by its identity; \<open>None\<close> inside is the document body).
\<close>

fun nodeId :: "node \<Rightarrow> nat option" where
  "nodeId (ElementNode el) = Some (elId el)"
| "nodeId DocumentBody = None"

definition observe :: "component \<Rightarrow> menuPosition \<times> bool \<times> nat option option" where
  "observe s = (menuPosition s, showSpeedMenu s, map_option nodeId (portalParent s))"

text \<open>
  The component without its fullscreen state and without the record of where the last
  render put the portal: the props, the stored placement, the timer and the listener.
\<close>

definition forgetRendered :: "component \<Rightarrow> component" where
  "forgetRendered s = s\<lparr>isFullscreen := False, portalParent := None\<rparr>"

text \<open>Closing an open menu and opening it again: two clicks on the trigger.\<close>

definition closeThenOpen :: "dom \<Rightarrow> component \<Rightarrow> component" where
  "closeThenOpen env s = step env Click (step env Click s)"

subsection \<open>A page to evaluate on\<close>

text \<open>
  A player container of height 600 with the given classes, an overlay positioned in it
  at (500, 900), and the trigger button at (10, 20) in the overlay; the menu, when
  mounted, is 180 high; the viewport is 800 high.
\<close>

definition exampleContainer :: "string list \<Rightarrow> element" where
  "exampleContainer cls =
     Element 1 cls 0 0 600 1000
       \<lparr>top_rect = 100, bottom_rect = 700, left_rect = 0, right_rect = 1000\<rparr> None None"

definition exampleOverlay :: "string list \<Rightarrow> element" where
  "exampleOverlay cls =
     Element 2 [] 500 900 60 80
       \<lparr>top_rect = 600, bottom_rect = 660, left_rect = 900, right_rect = 980\<rparr>
       (Some (exampleContainer cls)) (Some (exampleContainer cls))"

definition exampleButton :: "string list \<Rightarrow> element" where
  "exampleButton cls =
     Element 3 [] 10 20 40 48
       \<lparr>top_rect = 710, bottom_rect = 750, left_rect = 920, right_rect = 968\<rparr>
       (Some (exampleOverlay cls)) (Some (exampleOverlay cls))"

definition exampleMenu :: element where
  "exampleMenu =
     Element 4 [] 0 0 180 72
       \<lparr>top_rect = 0, bottom_rect = 180, left_rect = 0, right_rect = 72\<rparr> None None"

definition exampleDom :: "string list \<Rightarrow> element option \<Rightarrow> dom" where
  "exampleDom cls fs =
     \<lparr>buttonRef = Some (exampleButton cls), containerRef = Some (exampleContainer cls),
      menuElement = exampleMenu, innerHeight = 800, documentDefined = True,
      fullscreenElement = fs\<rparr>"

definition plainDom :: dom where
  "plainDom = exampleDom [''kvideo-container''] None"

definition markedDom :: dom where
  "markedDom = exampleDom [''kvideo-container'', ''is-web-fullscreen''] None"

definition detachedDom :: dom where
  "detachedDom = plainDom\<lparr>containerRef := None\<rparr>"

definition exampleComponent :: "bool \<Rightarrow> bool \<Rightarrow> component" where
  "exampleComponent shown rot =
     \<lparr>showSpeedMenu = shown, isRotated = rot, menuPosition = initialMenuPosition,
      isFullscreen = False, settleTimer = shown, scrollListener = shown,
      portalParent = None\<rparr>"

text \<open>
  The same page with the trigger higher up, at 560 to 600 of the viewport: 190 below it
  and 550 above.
\<close>

definition midButton :: element where
  "midButton =
     Element 3 [] 10 20 40 48
       \<lparr>top_rect = 560, bottom_rect = 600, left_rect = 920, right_rect = 968\<rparr>
       (Some (exampleOverlay [''kvideo-container'']))
       (Some (exampleOverlay [''kvideo-container'']))"

definition midDom :: dom where
  "midDom = plainDom\<lparr>buttonRef := Some midButton\<rparr>"

section \<open>Properties\<close>

subsection \<open>What a placement computation does\<close>

lemma calculateMenuPosition_noop:
  assumes "buttonRef env = None \<or> containerRef env = None"
  shows "calculateMenuPosition env s = s"
proof (cases "buttonRef env")
  case None
  then show ?thesis by (simp add: calculateMenuPosition_def)
next
  case (Some button)
  with assms have "containerRef env = None" by simp
  with Some show ?thesis by (simp add: calculateMenuPosition_def)
qed

lemma calculateMenuPosition_rotated:
  assumes "buttonRef env = Some button" "containerRef env = Some container" "isRotated s"
  shows "calculateMenuPosition env s =
     (let top' = accumulatedTop button container;
          left' = accumulatedLeft button container;
          sb = spaceBelowRotated (offsetHeight container) top' (offsetHeight button);
          sa = spaceAboveRotated top';
          ah = actualMenuHeight (menuRef env s);
          up = (sb < min ah 200 \<and> sa > sb)
      in s\<lparr>menuPosition :=
          \<lparr>topPos = (if up then top' - 10 else top' + offsetHeight button + 10),
           leftPos = left' + offsetWidth button,
           maxHeight = Px (if up then min sa ah else min sb (offsetHeight container * 0.7)),
           openUpward = up\<rparr>\<rparr>)"
proof -
  obtain t l where walk: "offsetWalk (Some button) container (0, 0) = (t, l)"
    by (cases "offsetWalk (Some button) container (0, 0)")
  show ?thesis
    using assms walk
    by (simp add: calculateMenuPosition_def accumulatedTop_def accumulatedLeft_def Let_def
        del: offsetWalk.simps)
qed

lemma calculateMenuPosition_normal:
  assumes "buttonRef env = Some button" "containerRef env = Some container" "\<not> isRotated s"
  shows "calculateMenuPosition env s =
     (let r = getBoundingClientRect button;
          sb = spaceBelowNormal (innerHeight env) r;
          sa = spaceAboveNormal r;
          ah = actualMenuHeight (menuRef env s);
          up = (sb < min ah 200 \<and> sa > sb)
      in s\<lparr>menuPosition :=
          \<lparr>topPos = (if up then top_rect r - 10 else bottom_rect r + 10),
           leftPos = right_rect r,
           maxHeight = Px (if up then min sa ah else min sb (innerHeight env * 0.7)),
           openUpward = up\<rparr>\<rparr>)"
  using assms
  by (simp add: calculateMenuPosition_def Let_def)

text \<open>The same, in terms of the spaces of the branch taken.\<close>

lemma calculateMenuPosition_placement:
  assumes "buttonRef env = Some button" "containerRef env = Some container"
  shows "menuPosition (calculateMenuPosition env s) =
     (let sb = spaceBelow env s button container;
          sa = spaceAbove env s button container;
          ah = actualMenuHeight (menuRef env s);
          up = (sb < min ah 200 \<and> sa > sb)
      in \<lparr>topPos =
            (if isRotated s
             then (if up then accumulatedTop button container - 10
                   else accumulatedTop button container + offsetHeight button + 10)
             else (if up then top_rect (getBoundingClientRect button) - 10
                   else bottom_rect (getBoundingClientRect button) + 10)),
          leftPos =
            (if isRotated s then accumulatedLeft button container + offsetWidth button
             else right_rect (getBoundingClientRect button)),
          maxHeight =
            Px (if up then min sa ah else min sb (availableHeight env s container * 0.7)),
          openUpward = up\<rparr>)"
proof (cases "isRotated s")
  case True
  then show ?thesis
    by (simp add: calculateMenuPosition_rotated [OF assms True] spaceBelow_def spaceAbove_def
        availableHeight_def Let_def)
next
  case False
  then show ?thesis
    by (simp add: calculateMenuPosition_normal [OF assms False] spaceBelow_def spaceAbove_def
        availableHeight_def Let_def)
qed

lemma calculateMenuPosition_frame:
  "calculateMenuPosition env s = s\<lparr>menuPosition := menuPosition (calculateMenuPosition env s)\<rparr>"
proof (cases "buttonRef env = None \<or> containerRef env = None")
  case True
  then show ?thesis by (simp add: calculateMenuPosition_noop)
next
  case False
  then obtain b c where refs: "buttonRef env = Some b" "containerRef env = Some c"
    by auto
  show ?thesis
  proof (cases "isRotated s")
    case True
    show ?thesis
      by (simp add: calculateMenuPosition_rotated [OF refs True] Let_def)
  next
    case False
    show ?thesis
      by (simp add: calculateMenuPosition_normal [OF refs False] Let_def)
  qed
qed

lemma calculateMenuPosition_fields [simp]:
  "showSpeedMenu (calculateMenuPosition env s) = showSpeedMenu s"
  "isRotated (calculateMenuPosition env s) = isRotated s"
  "settleTimer (calculateMenuPosition env s) = settleTimer s"
  "scrollListener (calculateMenuPosition env s) = scrollListener s"
  "isFullscreen (calculateMenuPosition env s) = isFullscreen s"
  "portalParent (calculateMenuPosition env s) = portalParent s"
  by (subst calculateMenuPosition_frame, simp)+

text \<open>The placement depends on the component only through its two props.\<close>

lemma calculateMenuPosition_cong:
  assumes "isRotated s = isRotated t" and "showSpeedMenu s = showSpeedMenu t"
    and "buttonRef env = Some b" and "containerRef env = Some c"
  shows "menuPosition (calculateMenuPosition env s) = menuPosition (calculateMenuPosition env t)"
proof -
  have "menuRef env s = menuRef env t"
    using assms(2) by (simp add: menuRef_def)
  then show ?thesis
    using assms(1)
    by (simp add: calculateMenuPosition_placement [OF assms(3,4)] spaceBelow_def spaceAbove_def
        availableHeight_def Let_def)
qed

subsection \<open>The offset walk\<close>

lemma offsetWalk_sums:
  "offsetWalk el container (t, l) =
     (t + sum_list (map offsetTop
            (takeWhile (\<lambda>e. elId e \<noteq> elId container) (offsetChain el))),
      l + sum_list (map offsetLeft
            (takeWhile (\<lambda>e. elId e \<noteq> elId container) (offsetChain el))))"
proof (induction el container "(t, l)" arbitrary: t l rule: offsetWalk.induct)
  case (1 container top' left')
  then show ?case by simp
next
  case (2 el container top' left')
  show ?case
  proof (cases "elId el = elId container")
    case True
    then show ?thesis by simp
  next
    case False
    then show ?thesis using 2 by (simp add: algebra_simps)
  qed
qed


subsection \<open>Rendering, effects and handlers\<close>

lemma portalTarget_props:
  "showSpeedMenu s = showSpeedMenu t \<Longrightarrow> isRotated s = isRotated t \<Longrightarrow>
   portalTarget env s = portalTarget env t"
  by (simp add: portalTarget_def)

lemma render_fields [simp]:
  "showSpeedMenu (render env s) = showSpeedMenu s"
  "isRotated (render env s) = isRotated s"
  "menuPosition (render env s) = menuPosition s"
  "isFullscreen (render env s) = isFullscreen s"
  "settleTimer (render env s) = settleTimer s"
  "scrollListener (render env s) = scrollListener s"
  "portalParent (render env s) = portalTarget env s"
  by (simp_all add: render_def)

lemma onFullscreenSignal_fields [simp]:
  "showSpeedMenu (onFullscreenSignal env s) = showSpeedMenu s"
  "isRotated (onFullscreenSignal env s) = isRotated s"
  "menuPosition (onFullscreenSignal env s) = menuPosition s"
  "settleTimer (onFullscreenSignal env s) = settleTimer s"
  "scrollListener (onFullscreenSignal env s) = scrollListener s"
  by (simp_all add: onFullscreenSignal_def updateFullscreen_def Let_def)

lemma onSettleTimeout_fields [simp]:
  "showSpeedMenu (onSettleTimeout env s) = showSpeedMenu s"
  "isRotated (onSettleTimeout env s) = isRotated s"
  "scrollListener (onSettleTimeout env s) = scrollListener s"
  by (simp_all add: onSettleTimeout_def Let_def)

lemma positionEffect_fields [simp]:
  "showSpeedMenu (positionEffect env s) = showSpeedMenu s"
  "scrollListener (positionEffect env s) = scrollListener s"
  "isRotated (positionEffect env s) = isRotated s"
  by (simp_all add: positionEffect_def)

lemma rerender_fields [simp]:
  "showSpeedMenu (rerender env shown rot s) = shown"
  "isRotated (rerender env shown rot s) = rot"
  by (simp_all add: rerender_def Let_def scrollEffect_def)

text \<open>
  After a render with its effects, and after the mount, the portal sits where a render
  in the same page would put it: the renders that follow the setters called by the
  effects, in that page, change nothing.
\<close>

lemma rerender_rendered:
  "render env (rerender env shown rot s) = rerender env shown rot s"
proof -
  have "portalParent (rerender env shown rot s) =
        portalTarget env (s\<lparr>showSpeedMenu := shown, isRotated := rot\<rparr>)"
    by (simp add: rerender_def Let_def scrollEffect_def positionEffect_def)
  also have "\<dots> = portalTarget env (rerender env shown rot s)"
    by (rule portalTarget_props) simp_all
  finally show ?thesis by (simp add: render_def)
qed

lemma mount_rendered:
  "render env (mount env shown rot) = mount env shown rot"
proof -
  let ?i = "\<lparr>showSpeedMenu = shown, isRotated = rot, menuPosition = initialMenuPosition,
        isFullscreen = False, settleTimer = False, scrollListener = False,
        portalParent = None\<rparr>"
  have "portalTarget env (updateFullscreen env (render env ?i)) = portalTarget env ?i"
    by (rule portalTarget_props) (simp_all add: updateFullscreen_def)
  then have "portalParent (mount env shown rot) = portalTarget env ?i"
    by (simp add: mount_def scrollEffect_def positionEffect_def onFullscreenSignal_def Let_def
        updateFullscreen_def)
  also have "\<dots> = portalTarget env (mount env shown rot)"
    by (rule portalTarget_props) (simp_all add: mount_def scrollEffect_def)
  finally show ?thesis by (simp add: render_def)
qed

lemma rerender_listener:
  "scrollListener s = showSpeedMenu s \<Longrightarrow> scrollListener (rerender env shown rot s) = shown"
  by (simp add: rerender_def Let_def scrollEffect_def)

lemma rerender_close:
  assumes "showSpeedMenu s"
  shows "rerender env False (isRotated s) s =
         s\<lparr>showSpeedMenu := False, scrollListener := False, settleTimer := False,
           portalParent := None\<rparr>"
  using assms
  by (simp add: rerender_def Let_def scrollEffect_def positionEffect_def render_def
      portalTarget_def)

lemma rerender_open:
  assumes "\<not> showSpeedMenu s"
  shows "rerender env True (isRotated s) s =
         (calculateMenuPosition env
            ((render env (s\<lparr>showSpeedMenu := True\<rparr>))\<lparr>scrollListener := True\<rparr>))
         \<lparr>settleTimer := True\<rparr>"
  using assms by (simp add: rerender_def Let_def scrollEffect_def positionEffect_def)

lemma handleToggle_open:
  assumes "showSpeedMenu s"
  shows "handleToggle env s =
         s\<lparr>showSpeedMenu := False, scrollListener := False, settleTimer := False,
           portalParent := None\<rparr>"
  using assms by (simp add: handleToggle_def onToggleSpeedMenu_def rerender_close)

lemma handleToggle_closed:
  assumes "\<not> showSpeedMenu s"
  shows "handleToggle env s =
         (calculateMenuPosition env
            ((render env ((calculateMenuPosition env s)\<lparr>showSpeedMenu := True\<rparr>))
             \<lparr>scrollListener := True\<rparr>))
         \<lparr>settleTimer := True\<rparr>"
proof -
  have "handleToggle env s =
        rerender env True (isRotated (calculateMenuPosition env s)) (calculateMenuPosition env s)"
    using assms by (simp add: handleToggle_def onToggleSpeedMenu_def)
  also have "\<dots> = (calculateMenuPosition env
            ((render env ((calculateMenuPosition env s)\<lparr>showSpeedMenu := True\<rparr>))
             \<lparr>scrollListener := True\<rparr>))
         \<lparr>settleTimer := True\<rparr>"
    using assms by (intro rerender_open) simp
  finally show ?thesis .
qed

lemma handleScroll_open:
  assumes "showSpeedMenu s"
  shows "handleScroll env s =
         s\<lparr>showSpeedMenu := False, scrollListener := False, settleTimer := False,
           portalParent := None\<rparr>"
  using assms by (simp add: handleScroll_def onToggleSpeedMenu_def rerender_close)

text \<open>The scroll listener is registered exactly while the menu is open.\<close>

lemma step_listener:
  assumes "scrollListener s = showSpeedMenu s"
  shows "scrollListener (step env ev s) = showSpeedMenu (step env ev s)"
proof (cases ev)
  case Click
  then show ?thesis
    using assms by (simp add: handleToggle_def Let_def rerender_listener)
next
  case (Scroll target dx dy)
  then show ?thesis
    using assms by (simp add: handleScroll_def rerender_listener)
next
  case SettleTimeout
  then show ?thesis using assms by simp
next
  case FullscreenChange
  then show ?thesis using assms by simp
next
  case PollTick
  then show ?thesis using assms by simp
next
  case (ParentRender shown rot)
  then show ?thesis using assms by (simp add: rerender_listener)
qed

lemma reachable_listener: "reachable s \<Longrightarrow> scrollListener s = showSpeedMenu s"
proof (induction rule: reachable.induct)
  case (reachable_mount env shown rot)
  show ?case by (simp add: mount_def scrollEffect_def)
next
  case (reachable_step s env ev)
  from reachable_step.IH show ?case by (rule step_listener)
qed

lemma closeThenOpen_fields:
  assumes "showSpeedMenu s"
  shows "showSpeedMenu (closeThenOpen env s)" and "isRotated (closeThenOpen env s) = isRotated s"
proof -
  let ?c = "handleToggle env s"
  have c: "\<not> showSpeedMenu ?c" "isRotated ?c = isRotated s"
    by (simp_all add: handleToggle_open [OF assms])
  show "showSpeedMenu (closeThenOpen env s)"
    by (simp add: closeThenOpen_def handleToggle_closed [OF c(1)])
  show "isRotated (closeThenOpen env s) = isRotated s"
    using c(2) by (simp add: closeThenOpen_def handleToggle_closed [OF c(1)])
qed

lemma closeThenOpen_detached:
  assumes "showSpeedMenu s" and "buttonRef env = None \<or> containerRef env = None"
  shows "menuPosition (closeThenOpen env s) = menuPosition s"
proof -
  let ?c = "handleToggle env s"
  have c: "\<not> showSpeedMenu ?c" "menuPosition ?c = menuPosition s"
    by (simp_all add: handleToggle_open [OF assms(1)])
  show ?thesis
    using c(2)
    by (simp add: closeThenOpen_def handleToggle_closed [OF c(1)]
        calculateMenuPosition_noop [OF assms(2)])
qed

lemma closeThenOpen_attached:
  assumes "showSpeedMenu s" and "buttonRef env = Some b" and "containerRef env = Some c"
  shows "menuPosition (closeThenOpen env s) = menuPosition (calculateMenuPosition env s)"
proof -
  let ?c = "handleToggle env s"
  let ?o = "(render env ((calculateMenuPosition env ?c)\<lparr>showSpeedMenu := True\<rparr>))
             \<lparr>scrollListener := True\<rparr>"
  have c: "\<not> showSpeedMenu ?c" "isRotated ?c = isRotated s"
    by (simp_all add: handleToggle_open [OF assms(1)])
  have "menuPosition (closeThenOpen env s) = menuPosition (calculateMenuPosition env ?o)"
    by (simp add: closeThenOpen_def handleToggle_closed [OF c(1)])
  also have "\<dots> = menuPosition (calculateMenuPosition env s)"
    by (rule calculateMenuPosition_cong [OF _ _ assms(2,3)]) (simp_all add: assms(1) c(2))
  finally show ?thesis .
qed

subsection \<open>What the fullscreen signals can reach\<close>

lemma withoutMarker_fields [simp]:
  "elId (withoutMarker el) = elId el"
  "offsetTop (withoutMarker el) = offsetTop el"
  "offsetLeft (withoutMarker el) = offsetLeft el"
  "offsetHeight (withoutMarker el) = offsetHeight el"
  "offsetWidth (withoutMarker el) = offsetWidth el"
  "getBoundingClientRect (withoutMarker el) = getBoundingClientRect el"
  "offsetParent (withoutMarker el) = map_option withoutMarker (offsetParent el)"
  by (cases el; simp)+

lemma offsetWalk_withoutMarker:
  "offsetWalk (map_option withoutMarker el) (withoutMarker container) acc =
   offsetWalk el container acc"
proof (induction el container acc rule: offsetWalk.induct)
  case (1 container top' left')
  then show ?case by simp
next
  case (2 el container top' left')
  then show ?case by simp
qed

lemma accumulated_withoutMarker [simp]:
  "accumulatedTop (withoutMarker b) (withoutMarker c) = accumulatedTop b c"
  "accumulatedLeft (withoutMarker b) (withoutMarker c) = accumulatedLeft b c"
  using offsetWalk_withoutMarker [of "Some b" c "(0, 0)"]
  by (simp_all add: accumulatedTop_def accumulatedLeft_def del: offsetWalk.simps)

lemma actualMenuHeight_withoutMarker [simp]:
  "actualMenuHeight (map_option withoutMarker m) = actualMenuHeight m"
  by (cases m) (simp_all add: actualMenuHeight_def)

lemma menuRef_without [simp]:
  "menuRef (withoutFullscreenSignals env) s = map_option withoutMarker (menuRef env s)"
  by (simp add: menuRef_def withoutFullscreenSignals_def)

lemma without_fields [simp]:
  "buttonRef (withoutFullscreenSignals env) = map_option withoutMarker (buttonRef env)"
  "containerRef (withoutFullscreenSignals env) = map_option withoutMarker (containerRef env)"
  "innerHeight (withoutFullscreenSignals env) = innerHeight env"
  "documentDefined (withoutFullscreenSignals env) = documentDefined env"
  by (simp_all add: withoutFullscreenSignals_def)

lemma calculateMenuPosition_without:
  "calculateMenuPosition (withoutFullscreenSignals env) s = calculateMenuPosition env s"
proof (cases "buttonRef env = None \<or> containerRef env = None")
  case True
  then have "buttonRef (withoutFullscreenSignals env) = None \<or>
             containerRef (withoutFullscreenSignals env) = None"
    by auto
  with True show ?thesis by (simp only: calculateMenuPosition_noop)
next
  case False
  then obtain b c where refs: "buttonRef env = Some b" "containerRef env = Some c"
    by auto
  then have refs': "buttonRef (withoutFullscreenSignals env) = Some (withoutMarker b)"
    "containerRef (withoutFullscreenSignals env) = Some (withoutMarker c)"
    by simp_all
  show ?thesis
  proof (cases "isRotated s")
    case True
    show ?thesis
      by (simp add: calculateMenuPosition_rotated [OF refs True]
          calculateMenuPosition_rotated [OF refs' True] Let_def)
  next
    case False
    show ?thesis
      by (simp add: calculateMenuPosition_normal [OF refs False]
          calculateMenuPosition_normal [OF refs' False] Let_def)
  qed
qed

lemma setsMenuPosition_without [simp]:
  "setsMenuPosition (withoutFullscreenSignals env) = setsMenuPosition env"
  by (simp add: setsMenuPosition_def split: option.splits)

lemma forgetRendered_fields [simp]:
  "showSpeedMenu (forgetRendered s) = showSpeedMenu s"
  "isRotated (forgetRendered s) = isRotated s"
  "settleTimer (forgetRendered s) = settleTimer s"
  "scrollListener (forgetRendered s) = scrollListener s"
  "menuPosition (forgetRendered s) = menuPosition s"
  by (simp_all add: forgetRendered_def)

lemma forgetRendered_eq:
  "(forgetRendered s = forgetRendered t) =
     (showSpeedMenu s = showSpeedMenu t \<and> isRotated s = isRotated t \<and>
      menuPosition s = menuPosition t \<and> settleTimer s = settleTimer t \<and>
      scrollListener s = scrollListener t \<and> component.more s = component.more t)"
  by (cases s, cases t) (auto simp add: forgetRendered_def)

lemma forgetRendered_absorb [simp]:
  "forgetRendered (s\<lparr>isFullscreen := b\<rparr>) = forgetRendered s"
  "forgetRendered (s\<lparr>portalParent := p\<rparr>) = forgetRendered s"
  "forgetRendered (render env s) = forgetRendered s"
  "forgetRendered (updateFullscreen env s) = forgetRendered s"
  "forgetRendered (onFullscreenSignal env s) = forgetRendered s"
  by (simp_all add: forgetRendered_def render_def updateFullscreen_def onFullscreenSignal_def
      Let_def)

text \<open>
  Each handler and effect takes components that agree up to the fullscreen state and the
  portal's place to components that agree up to them.
\<close>

lemma calculateMenuPosition_placement_low:
  assumes "isRotated s = isRotated t" and "showSpeedMenu s = showSpeedMenu t"
    and "menuPosition s = menuPosition t"
  shows "menuPosition (calculateMenuPosition env s) = menuPosition (calculateMenuPosition env t)"
proof (cases "buttonRef env = None \<or> containerRef env = None")
  case True
  then show ?thesis using assms(3) by (simp only: calculateMenuPosition_noop)
next
  case False
  then obtain b c where refs: "buttonRef env = Some b" "containerRef env = Some c"
    by auto
  show ?thesis by (rule calculateMenuPosition_cong [OF assms(1,2) refs])
qed

lemma calculateMenuPosition_low:
  assumes "forgetRendered s = forgetRendered t"
  shows "forgetRendered (calculateMenuPosition env s) =
         forgetRendered (calculateMenuPosition env t)"
proof -
  have "menuPosition (calculateMenuPosition env s) = menuPosition (calculateMenuPosition env t)"
    using assms by (intro calculateMenuPosition_placement_low) (simp_all add: forgetRendered_eq)
  then show ?thesis
    using assms by (simp add: forgetRendered_eq)
qed

lemma scrollEffect_low:
  assumes "forgetRendered s = forgetRendered t"
  shows "forgetRendered (scrollEffect s) = forgetRendered (scrollEffect t)"
  using assms by (simp add: scrollEffect_def forgetRendered_eq)

lemma positionEffect_low:
  assumes "forgetRendered s = forgetRendered t"
  shows "forgetRendered (positionEffect env s) = forgetRendered (positionEffect env t)"
  using assms calculateMenuPosition_low [OF assms, of env]
  by (simp add: positionEffect_def forgetRendered_eq)

lemma positionEffect_without:
  "positionEffect (withoutFullscreenSignals env) s = positionEffect env s"
  by (simp add: positionEffect_def calculateMenuPosition_without)

lemma render_low:
  assumes "forgetRendered s = forgetRendered t"
  shows "forgetRendered (render env1 (s\<lparr>showSpeedMenu := shown, isRotated := rot\<rparr>)) =
         forgetRendered (render env2 (t\<lparr>showSpeedMenu := shown, isRotated := rot\<rparr>))"
  using assms by (simp add: forgetRendered_eq)

lemma rerender_low:
  assumes "forgetRendered s = forgetRendered t"
  shows "forgetRendered (rerender env shown rot s) = forgetRendered (rerender env shown rot t)"
proof -
  let ?s1 = "render env (s\<lparr>showSpeedMenu := shown, isRotated := rot\<rparr>)"
  let ?t1 = "render env (t\<lparr>showSpeedMenu := shown, isRotated := rot\<rparr>)"
  have props: "showSpeedMenu t = showSpeedMenu s" "isRotated t = isRotated s"
    using assms by (simp_all add: forgetRendered_eq)
  have one: "forgetRendered ?s1 = forgetRendered ?t1"
    by (rule render_low [OF assms])
  show ?thesis
  proof (cases "shown = showSpeedMenu s")
    case True
    show ?thesis
    proof (cases "rot = isRotated s")
      case True
      with \<open>shown = showSpeedMenu s\<close> one show ?thesis
        by (simp only: rerender_def Let_def props simp_thms if_True)
    next
      case False
      with \<open>shown = showSpeedMenu s\<close> positionEffect_low [OF one, of env] show ?thesis
        by (simp only: rerender_def Let_def props simp_thms if_True if_False)
    qed
  next
    case False
    with positionEffect_low [OF scrollEffect_low [OF one], of env] show ?thesis
      by (simp only: rerender_def Let_def props simp_thms if_False)
  qed
qed

lemma rerender_without:
  "forgetRendered (rerender (withoutFullscreenSignals env) shown rot s) =
   forgetRendered (rerender env shown rot s)"
proof -
  let ?a = "render (withoutFullscreenSignals env) (s\<lparr>showSpeedMenu := shown, isRotated := rot\<rparr>)"
  let ?b = "render env (s\<lparr>showSpeedMenu := shown, isRotated := rot\<rparr>)"
  have one: "forgetRendered ?a = forgetRendered ?b"
    by (rule render_low) (rule refl)
  show ?thesis
  proof (cases "shown = showSpeedMenu s")
    case True
    show ?thesis
    proof (cases "rot = isRotated s")
      case True
      with \<open>shown = showSpeedMenu s\<close> one show ?thesis
        by (simp only: rerender_def Let_def simp_thms if_True)
    next
      case False
      with \<open>shown = showSpeedMenu s\<close> positionEffect_low [OF one, of env] show ?thesis
        by (simp only: rerender_def Let_def simp_thms if_True if_False positionEffect_without)
    qed
  next
    case False
    with positionEffect_low [OF scrollEffect_low [OF one], of env] show ?thesis
      by (simp only: rerender_def Let_def simp_thms if_False positionEffect_without)
  qed
qed

lemma handleToggle_low:
  assumes "forgetRendered s = forgetRendered t"
  shows "forgetRendered (handleToggle env s) = forgetRendered (handleToggle env t)"
proof -
  have props: "showSpeedMenu t = showSpeedMenu s" "isRotated t = isRotated s"
    using assms by (simp_all add: forgetRendered_eq)
  show ?thesis
  proof (cases "showSpeedMenu s")
    case True
    with rerender_low [OF assms] show ?thesis
      by (simp only: handleToggle_def Let_def props if_True)
  next
    case False
    with rerender_low [OF calculateMenuPosition_low [OF assms]] show ?thesis
      by (simp only: handleToggle_def Let_def props if_False calculateMenuPosition_fields)
  qed
qed

lemma handleToggle_without:
  "forgetRendered (handleToggle (withoutFullscreenSignals env) s) =
   forgetRendered (handleToggle env s)"
  by (simp only: handleToggle_def Let_def rerender_without calculateMenuPosition_without)

lemma handleScroll_low:
  assumes "forgetRendered s = forgetRendered t"
  shows "forgetRendered (handleScroll env s) = forgetRendered (handleScroll env t)"
proof -
  have props: "showSpeedMenu t = showSpeedMenu s" "isRotated t = isRotated s"
    using assms by (simp_all add: forgetRendered_eq)
  show ?thesis
  proof (cases "showSpeedMenu s")
    case True
    with rerender_low [OF assms] show ?thesis
      by (simp only: handleScroll_def props if_True)
  next
    case False
    with assms show ?thesis
      by (simp only: handleScroll_def props if_False)
  qed
qed

lemma handleScroll_without:
  "forgetRendered (handleScroll (withoutFullscreenSignals env) s) =
   forgetRendered (handleScroll env s)"
  by (cases "showSpeedMenu s") (simp_all only: handleScroll_def rerender_without if_True if_False)

lemma onSettleTimeout_forget:
  "forgetRendered (onSettleTimeout env s) =
   forgetRendered (calculateMenuPosition env (s\<lparr>settleTimer := False\<rparr>))"
  by (cases "setsMenuPosition env")
     (simp_all only: onSettleTimeout_def Let_def forgetRendered_absorb if_True if_False)

lemma onSettleTimeout_low:
  assumes "forgetRendered s = forgetRendered t"
  shows "forgetRendered (onSettleTimeout env s) = forgetRendered (onSettleTimeout env t)"
proof -
  have "forgetRendered (s\<lparr>settleTimer := False\<rparr>) = forgetRendered (t\<lparr>settleTimer := False\<rparr>)"
    using assms by (simp add: forgetRendered_eq)
  from calculateMenuPosition_low [OF this, of env] show ?thesis
    by (simp only: onSettleTimeout_forget)
qed

lemma onSettleTimeout_without:
  "forgetRendered (onSettleTimeout (withoutFullscreenSignals env) s) =
   forgetRendered (onSettleTimeout env s)"
  by (simp only: onSettleTimeout_forget calculateMenuPosition_without)

lemma step_low:
  assumes "forgetRendered s = forgetRendered t"
  shows "forgetRendered (step env ev s) = forgetRendered (step env ev t)"
proof -
  have same: "scrollListener t = scrollListener s" "settleTimer t = settleTimer s"
    using assms by (simp_all add: forgetRendered_eq)
  show ?thesis
  proof (cases ev)
    case Click
    then show ?thesis using handleToggle_low [OF assms] by (simp only: step.simps)
  next
    case (Scroll target dx dy)
    show ?thesis
    proof (cases "scrollListener s \<and> reachesWindow target")
      case True
      with Scroll handleScroll_low [OF assms] show ?thesis
        by (simp only: step.simps same if_True simp_thms)
    next
      case False
      with Scroll assms show ?thesis
        by (simp only: step.simps same if_False simp_thms)
    qed
  next
    case SettleTimeout
    show ?thesis
    proof (cases "settleTimer s")
      case True
      with SettleTimeout onSettleTimeout_low [OF assms] show ?thesis
        by (simp only: step.simps same if_True simp_thms)
    next
      case False
      with SettleTimeout assms show ?thesis
        by (simp only: step.simps same if_False simp_thms)
    qed
  next
    case FullscreenChange
    then show ?thesis using assms by (simp only: step.simps forgetRendered_absorb)
  next
    case PollTick
    then show ?thesis using assms by (simp only: step.simps forgetRendered_absorb)
  next
    case (ParentRender shown rot)
    then show ?thesis using rerender_low [OF assms] by (simp only: step.simps)
  qed
qed

lemma step_without:
  "forgetRendered (step (withoutFullscreenSignals env) ev s) = forgetRendered (step env ev s)"
proof (cases ev)
  case (Scroll target dx dy)
  then show ?thesis
    by (cases "scrollListener s \<and> reachesWindow target")
       (simp_all only: step.simps handleScroll_without if_True if_False simp_thms)
next
  case SettleTimeout
  then show ?thesis
    by (cases "settleTimer s")
       (simp_all only: step.simps onSettleTimeout_without if_True if_False simp_thms)
qed (simp_all only: step.simps handleToggle_without rerender_without forgetRendered_absorb)

lemma step_sameExcept:
  assumes "sameExceptFullscreen env1 env2" and "forgetRendered s1 = forgetRendered s2"
  shows "forgetRendered (step env1 ev s1) = forgetRendered (step env2 ev s2)"
proof -
  have "forgetRendered (step env1 ev s1) =
        forgetRendered (step (withoutFullscreenSignals env1) ev s1)"
    by (simp only: step_without)
  also have "\<dots> = forgetRendered (step (withoutFullscreenSignals env2) ev s2)"
    using assms(1) step_low [OF assms(2)] by (simp add: sameExceptFullscreen_def)
  also have "\<dots> = forgetRendered (step env2 ev s2)"
    by (simp only: step_without)
  finally show ?thesis .
qed

lemma run_sameExcept:
  "sameExecution tr1 tr2 \<Longrightarrow> forgetRendered s1 = forgetRendered s2 \<Longrightarrow>
   forgetRendered (run tr1 s1) = forgetRendered (run tr2 s2)"
proof (induction tr1 tr2 arbitrary: s1 s2 rule: sameExecution.induct)
  case 1
  then show ?case by simp
next
  case (2 env1 ev1 rest1 env2 ev2 rest2)
  from "2.prems" have ev: "ev1 = ev2" and envs: "sameExceptFullscreen env1 env2"
    and rest: "sameExecution rest1 rest2"
    by simp_all
  have "forgetRendered (step env1 ev1 s1) = forgetRendered (step env2 ev2 s2)"
    using step_sameExcept [OF envs "2.prems"(2)] ev by simp
  with "2.IH" [OF rest] show ?case by simp
qed simp_all

lemma mount_without:
  "forgetRendered (mount (withoutFullscreenSignals env) shown rot) =
   forgetRendered (mount env shown rot)"
proof -
  let ?i = "\<lparr>showSpeedMenu = shown, isRotated = rot, menuPosition = initialMenuPosition,
        isFullscreen = False, settleTimer = False, scrollListener = False,
        portalParent = None\<rparr>"
  let ?a = "scrollEffect (onFullscreenSignal (withoutFullscreenSignals env)
              (render (withoutFullscreenSignals env) ?i))"
  let ?b = "scrollEffect (onFullscreenSignal env (render env ?i))"
  have "forgetRendered ?a = forgetRendered ?b"
    by (rule scrollEffect_low) simp
  then have "forgetRendered (positionEffect env ?a) = forgetRendered (positionEffect env ?b)"
    by (rule positionEffect_low)
  then show ?thesis
    by (simp only: mount_def positionEffect_without)
qed

lemma mount_sameExcept:
  "sameExceptFullscreen env1 env2 \<Longrightarrow>
   forgetRendered (mount env1 shown rot) = forgetRendered (mount env2 shown rot)"
  using mount_without [of env1 shown rot] mount_without [of env2 shown rot]
  by (simp add: sameExceptFullscreen_def)

lemma portalTarget_forget:
  "map_option nodeId (portalTarget env s) =
   map_option nodeId (portalTarget (withoutFullscreenSignals env) (forgetRendered s))"
  by (simp add: portalTarget_def split: option.splits)

lemma portalTarget_sameExcept:
  assumes "sameExceptFullscreen env1 env2" and "forgetRendered s1 = forgetRendered s2"
  shows "map_option nodeId (portalTarget env1 s1) = map_option nodeId (portalTarget env2 s2)"
  using assms portalTarget_forget [of env1 s1] portalTarget_forget [of env2 s2]
  by (simp add: sameExceptFullscreen_def)

subsection \<open>The example page\<close>

lemma exampleButton_fields [simp]:
  "elId (exampleButton cls) = 3"
  "classList (exampleButton cls) = []"
  "offsetTop (exampleButton cls) = 10"
  "offsetLeft (exampleButton cls) = 20"
  "offsetHeight (exampleButton cls) = 40"
  "offsetWidth (exampleButton cls) = 48"
  "getBoundingClientRect (exampleButton cls) =
     \<lparr>top_rect = 710, bottom_rect = 750, left_rect = 920, right_rect = 968\<rparr>"
  "offsetParent (exampleButton cls) = Some (exampleOverlay cls)"
  by (simp_all add: exampleButton_def)

lemma exampleOverlay_fields [simp]:
  "elId (exampleOverlay cls) = 2"
  "offsetTop (exampleOverlay cls) = 500"
  "offsetLeft (exampleOverlay cls) = 900"
  "offsetParent (exampleOverlay cls) = Some (exampleContainer cls)"
  by (simp_all add: exampleOverlay_def)

lemma exampleContainer_fields [simp]:
  "elId (exampleContainer cls) = 1"
  "classList (exampleContainer cls) = cls"
  "offsetHeight (exampleContainer cls) = 600"
  "offsetParent (exampleContainer cls) = None"
  "parentElement (exampleContainer cls) = None"
  by (simp_all add: exampleContainer_def)

lemma exampleMenu_fields [simp]:
  "offsetHeight exampleMenu = 180"
  by (simp add: exampleMenu_def)

lemma exampleDom_fields [simp]:
  "buttonRef (exampleDom cls fs) = Some (exampleButton cls)"
  "containerRef (exampleDom cls fs) = Some (exampleContainer cls)"
  "menuElement (exampleDom cls fs) = exampleMenu"
  "innerHeight (exampleDom cls fs) = 800"
  "documentDefined (exampleDom cls fs) = True"
  "fullscreenElement (exampleDom cls fs) = fs"
  by (simp_all add: exampleDom_def)

lemma exampleComponent_fields [simp]:
  "showSpeedMenu (exampleComponent shown rot) = shown"
  "isRotated (exampleComponent shown rot) = rot"
  "menuPosition (exampleComponent shown rot) = initialMenuPosition"
  "isFullscreen (exampleComponent shown rot) = False"
  "settleTimer (exampleComponent shown rot) = shown"
  "scrollListener (exampleComponent shown rot) = shown"
  "portalParent (exampleComponent shown rot) = None"
  by (simp_all add: exampleComponent_def)

lemma example_walk:
  "offsetWalk (Some (exampleButton cls)) (exampleContainer cls) (0, 0) = (510, 920)"
  by simp

lemma example_accumulated [simp]:
  "accumulatedTop (exampleButton cls) (exampleContainer cls) = 510"
  "accumulatedLeft (exampleButton cls) (exampleContainer cls) = 920"
  by (simp_all add: accumulatedTop_def accumulatedLeft_def)

lemma example_chain:
  "chainToContainer (exampleButton cls) (exampleContainer cls) =
     [exampleButton cls, exampleOverlay cls]"
  by (simp add: chainToContainer_def)

lemma example_spaces [simp]:
  "spaceBelow (exampleDom cls fs) (exampleComponent shown True)
     (exampleButton cls) (exampleContainer cls) = 30"
  "spaceAbove (exampleDom cls fs) (exampleComponent shown True)
     (exampleButton cls) (exampleContainer cls) = 490"
  "spaceBelow (exampleDom cls fs) (exampleComponent shown False)
     (exampleButton cls) (exampleContainer cls) = 40"
  "spaceAbove (exampleDom cls fs) (exampleComponent shown False)
     (exampleButton cls) (exampleContainer cls) = 700"
  by (simp_all add: spaceBelow_def spaceAbove_def spaceBelowRotated_def spaceAboveRotated_def
      spaceBelowNormal_def spaceAboveNormal_def)

lemma example_menuHeight [simp]:
  "actualMenuHeight (menuRef (exampleDom cls fs) (exampleComponent True rot)) = 180"
  "actualMenuHeight (menuRef (exampleDom cls fs) (exampleComponent False rot)) = 250"
  by (simp_all add: actualMenuHeight_def menuRef_def)

lemma example_placement:
  "menuPosition (calculateMenuPosition (exampleDom cls fs) (exampleComponent False True)) =
     \<lparr>topPos = 500, leftPos = 968, maxHeight = Px 250, openUpward = True\<rparr>"
  "menuPosition (calculateMenuPosition (exampleDom cls fs) (exampleComponent True False)) =
     \<lparr>topPos = 700, leftPos = 968, maxHeight = Px 180, openUpward = True\<rparr>"
  by (simp_all add: calculateMenuPosition_placement [OF exampleDom_fields(1,2)] Let_def
      availableHeight_def)

lemma plainDom_fields [simp]:
  "buttonRef plainDom = Some (exampleButton [''kvideo-container''])"
  "containerRef plainDom = Some (exampleContainer [''kvideo-container''])"
  "menuElement plainDom = exampleMenu"
  "innerHeight plainDom = 800"
  "documentDefined plainDom = True"
  "fullscreenElement plainDom = None"
  by (simp_all add: plainDom_def)

lemma markedDom_fields [simp]:
  "containerRef markedDom = Some (exampleContainer [''kvideo-container'', ''is-web-fullscreen''])"
  "documentDefined markedDom = True"
  "fullscreenElement markedDom = None"
  by (simp_all add: markedDom_def)

lemma detachedDom_fields [simp]:
  "buttonRef detachedDom = Some (exampleButton [''kvideo-container''])"
  "containerRef detachedDom = None"
  "documentDefined detachedDom = True"
  "fullscreenElement detachedDom = None"
  by (simp_all add: detachedDom_def)

lemma midDom_fields [simp]:
  "buttonRef midDom = Some midButton"
  "containerRef midDom = Some (exampleContainer [''kvideo-container''])"
  "menuElement midDom = exampleMenu"
  "innerHeight midDom = 800"
  "documentDefined midDom = True"
  "getBoundingClientRect midButton =
     \<lparr>top_rect = 560, bottom_rect = 600, left_rect = 920, right_rect = 968\<rparr>"
  by (simp_all add: midDom_def midButton_def)

lemma midDom_spaces [simp]:
  "spaceBelow midDom (exampleComponent shown False) midButton
     (exampleContainer [''kvideo-container'']) = 190"
  "spaceAbove midDom (exampleComponent shown False) midButton
     (exampleContainer [''kvideo-container'']) = 550"
  by (simp_all add: spaceBelow_def spaceAbove_def spaceBelowNormal_def spaceAboveNormal_def)

lemma example_sameExcept: "sameExceptFullscreen plainDom markedDom"
  by (simp add: sameExceptFullscreen_def withoutFullscreenSignals_def plainDom_def markedDom_def
      exampleDom_def exampleButton_def exampleOverlay_def exampleContainer_def exampleMenu_def)

lemma example_windowFullscreen:
  "\<not> windowFullscreen plainDom" "\<not> nativeFullscreen plainDom"
  "windowFullscreen markedDom" "\<not> nativeFullscreen markedDom"
  "windowFullscreen detachedDom" "\<not> nativeFullscreen detachedDom"
  by (simp_all add: windowFullscreen_def nativeFullscreen_def closestWebFullscreen_def
      strictNotNull_def exampleContainer_def)

text \<open>
  The component mounted open and rotated while the container reference is detached:
  the portal is in the document body, and the fullscreen state is true.
\<close>

lemma mount_detached:
  "portalParent (mount detachedDom True True) = Some DocumentBody"
  "isFullscreen (mount detachedDom True True)"
  "showSpeedMenu (mount detachedDom True True)"
  "isRotated (mount detachedDom True True)"
  by (simp_all add: mount_def positionEffect_def scrollEffect_def onFullscreenSignal_def
      updateFullscreen_def example_windowFullscreen Let_def calculateMenuPosition_noop
      portalTarget_def render_def)

lemma poll_after_detached:
  "portalParent (step plainDom PollTick (mount detachedDom True True)) =
     Some (ElementNode (exampleContainer [''kvideo-container'']))"
  "portalParent (step markedDom PollTick (mount detachedDom True True)) = Some DocumentBody"
  "\<not> isFullscreen (step plainDom PollTick (mount detachedDom True True))"
  "isFullscreen (step markedDom PollTick (mount detachedDom True True))"
  by (simp_all add: onFullscreenSignal_def updateFullscreen_def example_windowFullscreen Let_def
      mount_detached portalTarget_def)

section \<open>The claims\<close>

text \<open>
  Claim C1. Whatever the space above, the space below and the menu height in use, the
  stored placement opens upward exactly when the space below is less than the smaller of
  that height and 200 and the space above is greater than the space below; otherwise it
  opens downward. The height in use is the measured \<open>offsetHeight\<close> of the menu when the
  menu is mounted (and that height is not 0), and 250 otherwise. The rule is the
  specification's in normal mode and in rotated mode alike.
\<close>

theorem openUpward_rule:
  assumes "buttonRef env = Some button" and "containerRef env = Some container"
  shows "openUpward (menuPosition (calculateMenuPosition env s)) =
           specOpenUpward (spaceAbove env s button container)
             (spaceBelow env s button container)
             (if showSpeedMenu s \<and> documentDefined env \<and> offsetHeight (menuElement env) \<noteq> 0
              then offsetHeight (menuElement env) else 250)"
proof -
  have "actualMenuHeight (menuRef env s) =
        (if showSpeedMenu s \<and> documentDefined env \<and> offsetHeight (menuElement env) \<noteq> 0
         then offsetHeight (menuElement env) else 250)"
    by (simp add: actualMenuHeight_def menuRef_def)
  then show ?thesis
    by (simp add: calculateMenuPosition_placement [OF assms] specOpenUpward_def Let_def)
qed

theorem openUpward_rule_witness:
  "buttonRef midDom = Some midButton \<and>
   containerRef midDom = Some (exampleContainer [''kvideo-container'']) \<and>
   openUpward (menuPosition (calculateMenuPosition midDom (exampleComponent False False))) =
     specOpenUpward 550 190 250 \<and>
   specOpenUpward 550 190 250 \<and>
   openUpward (menuPosition (calculateMenuPosition midDom (exampleComponent True False))) =
     specOpenUpward 550 190 180 \<and>
   \<not> specOpenUpward 550 190 180 \<and>
   openUpward (menuPosition (calculateMenuPosition plainDom (exampleComponent True True))) =
     specOpenUpward 490 30 180 \<and>
   specOpenUpward 490 30 180"
  using openUpward_rule [of midDom midButton "exampleContainer [''kvideo-container'']"
      "exampleComponent False False"]
    openUpward_rule [of midDom midButton "exampleContainer [''kvideo-container'']"
      "exampleComponent True False"]
    openUpward_rule [of plainDom "exampleButton [''kvideo-container'']"
      "exampleContainer [''kvideo-container'']" "exampleComponent True True"]
  by (simp add: specOpenUpward_def plainDom_def)

text \<open>
  Claim C2. \<^verbatim>\<open>updateFullscreen\<close> run while the anchor container reference is
  \<^verbatim>\<open>null\<close> and no native fullscreen element is present: the claim has the resulting
  fullscreen state false. The source computes
  \<^verbatim>\<open>containerRef.current?.closest('.is-web-fullscreen') !== null\<close>, where the optional
  chain yields \<^verbatim>\<open>undefined\<close>, and \<^verbatim>\<open>undefined !== null\<close> holds: the state becomes true.
\<close>

theorem updateFullscreen_without_container:
  "isFullscreen (updateFullscreen (env\<lparr>containerRef := None, fullscreenElement := None\<rparr>) s)"
  by (simp add: updateFullscreen_def nativeFullscreen_def windowFullscreen_def
      closestWebFullscreen_def strictNotNull_def)

text \<open>
  Claim C3, as stated: the portal renders into the anchor container exactly when the
  mode is rotated, and in rotated mode with the container not yet mounted nothing is
  rendered until it is. On the example page with the container reference detached, an
  open menu in rotated mode is rendered, into the document body.
\<close>

theorem portalTarget_rotated_detached:
  "isRotated (exampleComponent True True) \<and> showSpeedMenu (exampleComponent True True) \<and>
   containerRef detachedDom = None \<and>
   portalTarget detachedDom (exampleComponent True True) = Some DocumentBody"
  by (simp add: portalTarget_def detachedDom_def plainDom_def)

text \<open>
  Claim C3, amended. At each render in which the menu is rendered (it is open and the
  document exists), the portal target is the anchor container exactly when the mode is rotated
  and the container reference is attached; in every other case (normal mode, or rotated
  mode with the container not attached) it is the document body. Nothing is rendered
  exactly when the menu is closed or there is no document; there is no deferral.
\<close>

theorem portalTarget_cases:
  "(portalTarget env s = Some (ElementNode container)) =
     (showSpeedMenu s \<and> documentDefined env \<and> isRotated s \<and>
      containerRef env = Some container) \<and>
   (portalTarget env s = Some DocumentBody) =
     (showSpeedMenu s \<and> documentDefined env \<and>
      (\<not> isRotated s \<or> containerRef env = None)) \<and>
   (portalTarget env s = None) = (\<not> (showSpeedMenu s \<and> documentDefined env))"
  by (auto simp add: portalTarget_def split: option.splits)

theorem portalTarget_cases_witness:
  "portalTarget plainDom (exampleComponent True True) =
     Some (ElementNode (exampleContainer [''kvideo-container''])) \<and>
   portalTarget plainDom (exampleComponent True False) = Some DocumentBody \<and>
   portalTarget plainDom (exampleComponent False True) = None"
  using portalTarget_cases [of plainDom "exampleComponent True True"
      "exampleContainer [''kvideo-container'']"]
    portalTarget_cases [of plainDom "exampleComponent True False"]
    portalTarget_cases [of plainDom "exampleComponent False True"]
  by (simp add: plainDom_def)




text \<open>
  Claim C5. For every computed placement, \<open>maxHeight\<close> is \<open>min(spaceAbove, actualHeight)\<close>
  pixels when the menu opens upward and \<open>min(spaceBelow, 70% of the available height)\<close>
  when it opens downward, the available height being the viewport's in normal mode and
  the container's in rotated mode. So it never exceeds the space of the chosen side, nor
  the 70% ceiling when opening downward.
\<close>

theorem maxHeight_clamp:
  assumes "buttonRef env = Some button" and "containerRef env = Some container"
  shows "\<exists>m. maxHeight (menuPosition (calculateMenuPosition env s)) = Px m \<and>
     m = (if openUpward (menuPosition (calculateMenuPosition env s))
          then min (spaceAbove env s button container) (actualMenuHeight (menuRef env s))
          else min (spaceBelow env s button container)
                 (availableHeight env s container * 0.7)) \<and>
     m \<le> (if openUpward (menuPosition (calculateMenuPosition env s))
          then spaceAbove env s button container else spaceBelow env s button container) \<and>
     (if openUpward (menuPosition (calculateMenuPosition env s)) then True
      else m \<le> availableHeight env s container * 0.7)"
proof -
  define cap where "cap = availableHeight env s container * 0.7"
  define sb where "sb = spaceBelow env s button container"
  define sa where "sa = spaceAbove env s button container"
  define ah where "ah = actualMenuHeight (menuRef env s)"
  define up where "up = (sb < min ah 200 \<and> sa > sb)"
  have p: "maxHeight (menuPosition (calculateMenuPosition env s)) =
             Px (if up then min sa ah else min sb cap)"
    "openUpward (menuPosition (calculateMenuPosition env s)) = up"
    by (simp_all add: calculateMenuPosition_placement [OF assms] Let_def cap_def sb_def
        sa_def ah_def up_def)
  have "(if up then min sa ah else min sb cap) \<le> (if up then sa else sb)"
    by simp
  moreover have "(if up then True else (if up then min sa ah else min sb cap) \<le> cap)"
    by simp
  ultimately show ?thesis
    unfolding p cap_def [symmetric] sb_def [symmetric] sa_def [symmetric] ah_def [symmetric]
    by blast
qed

theorem maxHeight_clamp_witness:
  "buttonRef plainDom = Some (exampleButton [''kvideo-container'']) \<and>
   containerRef plainDom = Some (exampleContainer [''kvideo-container'']) \<and>
   maxHeight (menuPosition (calculateMenuPosition plainDom (exampleComponent True False))) =
     Px 180 \<and>
   openUpward (menuPosition (calculateMenuPosition plainDom (exampleComponent True False))) \<and>
   min (spaceAbove plainDom (exampleComponent True False) (exampleButton [''kvideo-container''])
          (exampleContainer [''kvideo-container'']))
       (actualMenuHeight (menuRef plainDom (exampleComponent True False))) = 180"
  using maxHeight_clamp [of plainDom "exampleButton [''kvideo-container'']"
      "exampleContainer [''kvideo-container'']" "exampleComponent True False"]
  by (simp add: plainDom_def example_placement)

text \<open>
  Claim C6. In normal mode the space below is the viewport height minus the bottom of
  the trigger's rectangle minus 10, and the space above is the rectangle's top minus 10.
  In rotated mode the space below is the container's height minus the accumulated top
  plus the trigger's height, minus 20, and the space above is the accumulated top minus
  20. These are the spaces from which the stored placement is decided.
\<close>

theorem available_space:
  assumes "buttonRef env = Some button" and "containerRef env = Some container"
  shows "spaceBelow env s button container =
       (if isRotated s
        then offsetHeight container - (accumulatedTop button container + offsetHeight button) - 20
        else innerHeight env - bottom_rect (getBoundingClientRect button) - 10) \<and>
     spaceAbove env s button container =
       (if isRotated s then accumulatedTop button container - 20
        else top_rect (getBoundingClientRect button) - 10) \<and>
     openUpward (menuPosition (calculateMenuPosition env s)) =
       (spaceBelow env s button container < min (actualMenuHeight (menuRef env s)) 200 \<and>
        spaceAbove env s button container > spaceBelow env s button container)"
  by (simp add: calculateMenuPosition_placement [OF assms] Let_def)
     (simp add: spaceBelow_def spaceAbove_def spaceBelowRotated_def spaceAboveRotated_def
        spaceBelowNormal_def spaceAboveNormal_def)

theorem available_space_witness:
  "buttonRef plainDom = Some (exampleButton [''kvideo-container'']) \<and>
   containerRef plainDom = Some (exampleContainer [''kvideo-container'']) \<and>
   spaceBelow plainDom (exampleComponent False True) (exampleButton [''kvideo-container''])
     (exampleContainer [''kvideo-container'']) = 600 - (510 + 40) - 20 \<and>
   spaceAbove plainDom (exampleComponent False True) (exampleButton [''kvideo-container''])
     (exampleContainer [''kvideo-container'']) = 510 - 20 \<and>
   spaceBelow plainDom (exampleComponent False False) (exampleButton [''kvideo-container''])
     (exampleContainer [''kvideo-container'']) = 800 - 750 - 10 \<and>
   spaceAbove plainDom (exampleComponent False False) (exampleButton [''kvideo-container''])
     (exampleContainer [''kvideo-container'']) = 710 - 10"
  using available_space [of plainDom "exampleButton [''kvideo-container'']"
      "exampleContainer [''kvideo-container'']" "exampleComponent False True"]
    available_space [of plainDom "exampleButton [''kvideo-container'']"
      "exampleContainer [''kvideo-container'']" "exampleComponent False False"]
  by (simp add: plainDom_def)

text \<open>
  Claim C7. In rotated mode the accumulated \<open>(top, left)\<close> is the sum of \<open>offsetTop\<close> and of
  \<open>offsetLeft\<close> over the offset-parent chain that starts at the trigger, the trigger
  included, and stops at the anchor container, the container excluded; the stored
  \<open>left\<close> is that sum plus the trigger's width.
\<close>

theorem offsetWalk_chain_sum:
  assumes "buttonRef env = Some button" and "containerRef env = Some container"
    and "isRotated s"
  shows "offsetWalk (Some button) container (0, 0) =
       (sum_list (map offsetTop (chainToContainer button container)),
        sum_list (map offsetLeft (chainToContainer button container))) \<and>
     leftPos (menuPosition (calculateMenuPosition env s)) =
       sum_list (map offsetLeft (chainToContainer button container)) + offsetWidth button"
proof -
  have walk: "offsetWalk (Some button) container (0, 0) =
       (sum_list (map offsetTop (chainToContainer button container)),
        sum_list (map offsetLeft (chainToContainer button container)))"
    using offsetWalk_sums [of "Some button" container 0 0]
    by (simp add: chainToContainer_def del: offsetWalk.simps offsetChain.simps)
  then have "accumulatedLeft button container =
             sum_list (map offsetLeft (chainToContainer button container))"
    by (simp add: accumulatedLeft_def del: offsetWalk.simps)
  then have "leftPos (menuPosition (calculateMenuPosition env s)) =
       sum_list (map offsetLeft (chainToContainer button container)) + offsetWidth button"
    using assms(3) by (simp add: calculateMenuPosition_placement [OF assms(1,2)] Let_def)
  with walk show ?thesis by (simp del: offsetWalk.simps)
qed

theorem offsetWalk_chain_sum_witness:
  "buttonRef plainDom = Some (exampleButton [''kvideo-container'']) \<and>
   containerRef plainDom = Some (exampleContainer [''kvideo-container'']) \<and>
   isRotated (exampleComponent False True) \<and>
   chainToContainer (exampleButton [''kvideo-container''])
     (exampleContainer [''kvideo-container'']) =
     [exampleButton [''kvideo-container''], exampleOverlay [''kvideo-container'']] \<and>
   offsetWalk (Some (exampleButton [''kvideo-container'']))
     (exampleContainer [''kvideo-container'']) (0, 0) = (10 + 500, 20 + 900) \<and>
   leftPos (menuPosition (calculateMenuPosition plainDom (exampleComponent False True))) =
     20 + 900 + 48"
  using offsetWalk_chain_sum [of plainDom "exampleButton [''kvideo-container'']"
      "exampleContainer [''kvideo-container'']" "exampleComponent False True"]
  by (simp add: plainDom_def example_chain del: offsetWalk.simps)

text \<open>
  Claim C8. When the trigger reference or the anchor container reference is missing,
  recomputing the placement changes nothing: the component, and with it the stored
  placement, is exactly as before.
\<close>

theorem calculateMenuPosition_guard:
  assumes "buttonRef env = None \<or> containerRef env = None"
  shows "calculateMenuPosition env s = s"
  using assms by (rule calculateMenuPosition_noop)

theorem calculateMenuPosition_guard_witness:
  "containerRef detachedDom = None \<and>
   calculateMenuPosition detachedDom (exampleComponent True True) = exampleComponent True True \<and>
   calculateMenuPosition (plainDom\<lparr>buttonRef := None\<rparr>) (exampleComponent True False) =
     exampleComponent True False"
  using calculateMenuPosition_guard [of detachedDom "exampleComponent True True"]
    calculateMenuPosition_guard [of "plainDom\<lparr>buttonRef := None\<rparr>" "exampleComponent True False"]
  by (simp add: detachedDom_def)

text \<open>
  Claim C9, as stated: in every reachable state with the menu open, the occurrence of a
  scroll event leads to the closed state. The component mounted open on the example
  page is reachable and open; a scroll event dispatched at the menu element (the
  menu's own scroll box) does not bubble to the window, where the listener is, and the
  menu is still open after it.
\<close>

theorem element_scroll_keeps_menu_open:
  "reachable (mount plainDom True False) \<and> showSpeedMenu (mount plainDom True False) \<and>
   showSpeedMenu (step plainDom (Scroll (ElementScroll exampleMenu) 0 120)
                    (mount plainDom True False))"
  by (simp add: reachable_mount) (simp add: mount_def scrollEffect_def)

text \<open>
  Claim C9, amended. In every reachable state in which the menu is open, a scroll event
  that reaches the window (a scroll of the viewport), whatever its deltas, closes the
  menu; the stored placement is not recomputed, and the scroll listener and the pending
  timer are released. A scroll event dispatched at an element does not reach the
  listener and changes nothing.
\<close>

theorem scroll_closes_menu:
  assumes "reachable s" and "showSpeedMenu s"
  shows "\<not> showSpeedMenu (step env (Scroll ViewportScroll dx dy) s) \<and>
         menuPosition (step env (Scroll ViewportScroll dx dy) s) = menuPosition s \<and>
         \<not> scrollListener (step env (Scroll ViewportScroll dx dy) s) \<and>
         \<not> settleTimer (step env (Scroll ViewportScroll dx dy) s) \<and>
         step env (Scroll (ElementScroll el) dx dy) s = s"
proof -
  have "scrollListener s" using reachable_listener [OF assms(1)] assms(2) by simp
  then have "step env (Scroll ViewportScroll dx dy) s =
             s\<lparr>showSpeedMenu := False, scrollListener := False, settleTimer := False,
               portalParent := None\<rparr>"
    using assms(2) by (simp add: handleScroll_open)
  then show ?thesis by simp
qed

theorem scroll_closes_menu_witness:
  "reachable (mount plainDom True False) \<and> showSpeedMenu (mount plainDom True False) \<and>
   \<not> showSpeedMenu (step plainDom (Scroll ViewportScroll 0 120) (mount plainDom True False)) \<and>
   menuPosition (step plainDom (Scroll ViewportScroll 0 120) (mount plainDom True False)) =
     menuPosition (mount plainDom True False) \<and>
   step plainDom (Scroll (ElementScroll exampleMenu) 0 120) (mount plainDom True False) =
     mount plainDom True False"
proof -
  have r: "reachable (mount plainDom True False)" by (rule reachable_mount)
  have o: "showSpeedMenu (mount plainDom True False)"
    by (simp add: mount_def scrollEffect_def)
  show ?thesis
    using scroll_closes_menu [OF r o, of plainDom 0 120 exampleMenu] r o
    by (simp only: simp_thms)
qed

text \<open>
  Claim C10. With the page unchanged, closing the open menu and opening it again yields
  the same stored placement the second time as the first: the placement is a function
  of the page and the props alone.
\<close>

theorem closeThenOpen_idempotent:
  assumes "showSpeedMenu s"
  shows "menuPosition (closeThenOpen env (closeThenOpen env s)) =
         menuPosition (closeThenOpen env s)"
proof (cases "buttonRef env = None \<or> containerRef env = None")
  case True
  show ?thesis
    by (rule closeThenOpen_detached [OF closeThenOpen_fields(1) [OF assms] True])
next
  case False
  then obtain b c where refs: "buttonRef env = Some b" "containerRef env = Some c"
    by auto
  have "menuPosition (closeThenOpen env (closeThenOpen env s)) =
        menuPosition (calculateMenuPosition env (closeThenOpen env s))"
    by (rule closeThenOpen_attached [OF closeThenOpen_fields(1) [OF assms] refs])
  also have "\<dots> = menuPosition (calculateMenuPosition env s)"
    by (rule calculateMenuPosition_cong [OF _ _ refs])
       (simp_all add: closeThenOpen_fields [OF assms] assms)
  also have "\<dots> = menuPosition (closeThenOpen env s)"
    by (rule closeThenOpen_attached [OF assms refs, symmetric])
  finally show ?thesis .
qed

theorem closeThenOpen_idempotent_witness:
  "showSpeedMenu (exampleComponent True False) \<and>
   menuPosition (closeThenOpen plainDom (closeThenOpen plainDom (exampleComponent True False))) =
     menuPosition (closeThenOpen plainDom (exampleComponent True False)) \<and>
   menuPosition (closeThenOpen plainDom (exampleComponent True False)) =
     \<lparr>topPos = 700, leftPos = 968, maxHeight = Px 180, openUpward = True\<rparr>"
proof -
  have o: "showSpeedMenu (exampleComponent True False)" by simp
  have "menuPosition (closeThenOpen plainDom (exampleComponent True False)) =
        menuPosition (calculateMenuPosition plainDom (exampleComponent True False))"
    by (rule closeThenOpen_attached [OF o]) (simp_all add: plainDom_def)
  then show ?thesis
    using closeThenOpen_idempotent [OF o, of plainDom] o
    by (simp add: plainDom_def example_placement)
qed

end
